theory Spec2Isabelle
  imports Main "HOL-Library.Word"
begin

section \<open>Pointers, bytes and machine integers\<close>

text \<open>
  A pointer is an address; address 0 is \<^verbatim>\<open>nullptr\<close>. \<^verbatim>\<open>int64_t\<close> and
  \<^verbatim>\<open>Py_ssize_t\<close> values are integers kept in range by \<open>int64_of\<close>, the
  two's complement conversion; \<^verbatim>\<open>size_t\<close> values are naturals reduced modulo
  \<open>2 ^ 64\<close> where the code does arithmetic on them.
\<close>

type_synonym addr = nat
type_synonym uint8 = "8 word"

definition int64_of :: "int \<Rightarrow> int" where
  "int64_of k = signed_take_bit 63 k"

definition is_int64 :: "int \<Rightarrow> bool" where
  "is_int64 k = (- (2 ^ 63) \<le> k \<and> k < 2 ^ 63)"

section \<open>Errors\<close>

text \<open>
  One constructor for each \<^verbatim>\<open>TORCH_CHECK\<close>, \<^verbatim>\<open>TORCH_INTERNAL_ASSERT\<close>,
  \<^verbatim>\<open>PyErr_SetString\<close> and \<^verbatim>\<open>THPUtils_setError\<close> of Storage.cpp; the arguments
  are the values the message is built from. \<open>InvalidPointer\<close> stands for a
  dereference of a pointer that points at no object.
\<close>

datatype error =
    NotStorageSubclass
  | AlreadyWrapped string string
  | AlreadyWrappedNotSubclass string string
  | AllocFailed string
  | InternalAssert
  | CannotConstructBase
  | ConflictingAllocatorSpec
  | UnsupportedDevice
  | NotASequence string
  | NoSequenceLength string
  | InvalidElementType string string
  | NullResource
  | IndexOutOfRange int nat
  | UnsupportedStep int
  | CannotIndexWith string
  | InvalidValueType string
  | SliceStepZero
  | OverflowUnpackingLong
  | CouldNotParseReal
  | BadAlloc
  | InvalidPointer

section \<open>The native resource and its wrapper slot\<close>

datatype DeviceType = CPU | CUDA | MPS | XPU | Meta | OtherDevice nat

datatype PyInterpreterStatus =
  DEFINITELY_UNINITIALIZED | MAYBE_UNINITIALIZED | TAGGED_BY_US | TAGGED_BY_OTHER

text \<open>
  Modelled from the spec: \<^verbatim>\<open>c10::impl::PyObjectSlot\<close> is declared outside
  Storage.cpp. The spec's WrapperSlot has \<open>wrapper_ref\<close> (the wrapper observed, or
  none), \<open>owns_wrapper\<close> and \<open>origin_tag\<close>. \<open>slot_pyobj\<close> is what
  \<^verbatim>\<open>check_pyobj(getPyInterpreter())\<close> yields: \<open>None\<close> when the slot is not
  tagged, \<open>Some 0\<close> when it is tagged and holds no wrapper, \<open>Some p\<close> for the
  wrapper at \<open>p\<close>.
\<close>

record PyObjectSlot =
  slot_pyobj :: "addr option"
  slot_owns_pyobj :: bool
  slot_status :: "PyInterpreterStatus option"

definition check_pyobj :: "PyObjectSlot \<Rightarrow> addr option" where
  "check_pyobj s = slot_pyobj s"

definition owns_pyobj :: "PyObjectSlot \<Rightarrow> bool" where
  "owns_pyobj s = slot_owns_pyobj s"

definition set_owns_pyobj :: "bool \<Rightarrow> PyObjectSlot \<Rightarrow> PyObjectSlot" where
  "set_owns_pyobj b s = s\<lparr>slot_owns_pyobj := b\<rparr>"

definition init_pyobj :: "addr \<Rightarrow> PyInterpreterStatus \<Rightarrow> PyObjectSlot \<Rightarrow> PyObjectSlot" where
  "init_pyobj obj status s = s\<lparr>slot_pyobj := Some obj, slot_status := Some status\<rparr>"

definition empty_slot :: PyObjectSlot where
  "empty_slot = \<lparr>slot_pyobj = None, slot_owns_pyobj = False, slot_status = None\<rparr>"

text \<open>
  \<^verbatim>\<open>at::DataPtr\<close>: the data pointer, the context pointer handed to the deleter, and
  the deleter. \<open>DecrefContext\<close> is the lambda of \<^verbatim>\<open>THPStorage_get\<close>, which calls
  \<^verbatim>\<open>c10::raw::intrusive_ptr::decref\<close> on its context.
\<close>

datatype Deleter = AllocatorDeleter | DecrefContext

record DataPtr =
  dp_data :: addr
  dp_ctx :: addr
  dp_deleter :: Deleter
  dp_device :: DeviceType

record StorageImpl =
  si_nbytes :: nat
  si_data_ptr :: DataPtr
  si_allocator :: int
  si_resizable :: bool
  si_refcount :: nat
  si_pyobj_slot :: PyObjectSlot

section \<open>Host objects\<close>

text \<open>
  A \<^verbatim>\<open>PyTypeObject\<close> with the fields Storage.cpp reads. Types are compared as
  values; \<open>tp_base\<close> is the single-inheritance chain.
\<close>

datatype PyTypeObject = PyTypeObject
  (tp_name: string) (tp_base: "PyTypeObject option")
  (tp_have_gc: bool) (tp_heaptype: bool)
  (tp_finalize: bool) (tp_del: bool)
  (tp_weaklistoffset: nat) (tp_dictoffset: nat) (tp_ob_size: nat)

definition THPStorageType :: PyTypeObject where
  "THPStorageType =
     PyTypeObject ''torch._C.StorageBase'' None False False False False 0 0 0"

fun PyType_IsSubtype :: "PyTypeObject \<Rightarrow> PyTypeObject \<Rightarrow> bool" where
  "PyType_IsSubtype (PyTypeObject n None g h f d w di sz) b =
     (PyTypeObject n None g h f d w di sz = b)"
| "PyType_IsSubtype (PyTypeObject n (Some p) g h f d w di sz) b =
     (PyTypeObject n (Some p) g h f d w di sz = b \<or> PyType_IsSubtype p b)"

text \<open>\<^verbatim>\<open>c10::MaybeOwned<c10::Storage>\<close>: the wrapper's handle on its resource.\<close>

datatype MaybeOwned = owned addr | borrowed addr

fun unsafeIsBorrowed :: "MaybeOwned \<Rightarrow> bool" where
  "unsafeIsBorrowed (owned i) = False"
| "unsafeIsBorrowed (borrowed i) = True"

fun unsafeGetStorageImpl :: "MaybeOwned \<Rightarrow> addr" where
  "unsafeGetStorageImpl (owned i) = i"
| "unsafeGetStorageImpl (borrowed i) = i"

record THPStorage =
  ob_refcnt :: int
  ob_type :: PyTypeObject
  cdata :: MaybeOwned
  gc_tracked :: bool
  weakreflist :: "addr list"
  ob_dict :: addr

text \<open>Values handed over by the interpreter.\<close>

datatype PyObject =
    PyLong int
  | PyStr string
  | PyNone
  | PyList "PyObject list"
  | PyTuple "PyObject list"
  | PySlice "int option" "int option" "int option"
  | PyStorage addr

section \<open>The heap\<close>

text \<open>
  \<open>hermetic\<close> is \<^verbatim>\<open>c10::impl::HermeticPyObjectTLS::get_state()\<close>;
  \<open>THPStorageClass\<close> is the global of that name. \<open>free_objs\<close> and
  \<open>free_impls\<close> are the addresses the next allocations return: \<^verbatim>\<open>tp_alloc\<close>
  returns \<^verbatim>\<open>NULL\<close> and \<^verbatim>\<open>make_intrusive\<close> throws when the list is empty.
\<close>

record heap =
  impls :: "addr \<rightharpoonup> StorageImpl"
  objs :: "addr \<rightharpoonup> THPStorage"
  memory :: "addr \<Rightarrow> uint8"
  hermetic :: bool
  THPStorageClass :: PyTypeObject
  free_objs :: "addr list"
  free_impls :: "addr list"
  free_mem :: addr

type_synonym 'a res = "(error + 'a) \<times> heap"

text \<open>
  The intrusive reference count is a \<^verbatim>\<open>size_t\<close>. The model keeps the count
  only: destroying a \<^verbatim>\<open>StorageImpl\<close> whose count reaches zero is done by
  \<^verbatim>\<open>c10::intrusive_ptr\<close>, outside Storage.cpp.
\<close>

definition incref :: "addr \<Rightarrow> heap \<Rightarrow> heap" where
  "incref i st =
     (case impls st i of
        None \<Rightarrow> st
      | Some im \<Rightarrow>
          st\<lparr>impls := (impls st)(i \<mapsto> im\<lparr>si_refcount := (si_refcount im + 1) mod 2 ^ 64\<rparr>)\<rparr>)"

definition decref :: "addr \<Rightarrow> heap \<Rightarrow> heap" where
  "decref i st =
     (case impls st i of
        None \<Rightarrow> st
      | Some im \<Rightarrow>
          st\<lparr>impls := (impls st)(i \<mapsto>
               im\<lparr>si_refcount := (si_refcount im + (2 ^ 64 - 1)) mod 2 ^ 64\<rparr>)\<rparr>)"

definition use_count :: "heap \<Rightarrow> addr \<Rightarrow> nat" where
  "use_count st i = (case impls st i of None \<Rightarrow> 0 | Some im \<Rightarrow> si_refcount im)"

definition Py_INCREF :: "addr \<Rightarrow> heap \<Rightarrow> heap" where
  "Py_INCREF obj st =
     (case objs st obj of
        None \<Rightarrow> st
      | Some ob \<Rightarrow> st\<lparr>objs := (objs st)(obj \<mapsto> ob\<lparr>ob_refcnt := ob_refcnt ob + 1\<rparr>)\<rparr>)"

text \<open>
  Assigning to \<^verbatim>\<open>cdata\<close> destroys the handle held before: an owned handle
  releases its reference, a borrowed one releases nothing.
\<close>

definition destroy_cdata :: "MaybeOwned \<Rightarrow> heap \<Rightarrow> heap" where
  "destroy_cdata c st = (case c of owned j \<Rightarrow> decref j st | borrowed j \<Rightarrow> st)"

definition assign_cdata :: "addr \<Rightarrow> MaybeOwned \<Rightarrow> heap \<Rightarrow> heap" where
  "assign_cdata obj c st =
     (case objs st obj of
        None \<Rightarrow> st
      | Some ob \<Rightarrow>
          destroy_cdata (cdata ob) (st\<lparr>objs := (objs st)(obj \<mapsto> ob\<lparr>cdata := c\<rparr>)\<rparr>))"

definition update_slot :: "addr \<Rightarrow> (PyObjectSlot \<Rightarrow> PyObjectSlot) \<Rightarrow> heap \<Rightarrow> heap" where
  "update_slot i f st =
     (case impls st i of
        None \<Rightarrow> st
      | Some im \<Rightarrow>
          st\<lparr>impls := (impls st)(i \<mapsto> im\<lparr>si_pyobj_slot := f (si_pyobj_slot im)\<rparr>)\<rparr>)"

text \<open>
  \<^verbatim>\<open>type->tp_alloc(type, 0)\<close>: a new object of the type with reference count 1,
  tracked by the collector when the type is a GC type, or \<^verbatim>\<open>NULL\<close>.
\<close>

definition tp_alloc :: "PyTypeObject \<Rightarrow> heap \<Rightarrow> addr \<times> heap" where
  "tp_alloc type st =
     (case free_objs st of
        [] \<Rightarrow> (0, st)
      | a # as \<Rightarrow>
          (a, st\<lparr>objs := (objs st)(a \<mapsto>
                  \<lparr>ob_refcnt = 1, ob_type = type, cdata = borrowed 0,
                   gc_tracked = tp_have_gc type, weakreflist = [], ob_dict = 0\<rparr>),
                 free_objs := as\<rparr>))"

text \<open>
  \<^verbatim>\<open>c10::make_intrusive<c10::StorageImpl>\<close> with a given data pointer: a new
  resource with reference count 1 and an empty slot.
\<close>

definition make_intrusive :: "nat \<Rightarrow> DataPtr \<Rightarrow> int \<Rightarrow> bool \<Rightarrow> heap \<Rightarrow> addr res" where
  "make_intrusive n dp alloc rsz st =
     (case free_impls st of
        [] \<Rightarrow> (Inl BadAlloc, st)
      | a # as \<Rightarrow>
          (Inr a, st\<lparr>impls := (impls st)(a \<mapsto>
                  \<lparr>si_nbytes = n, si_data_ptr = dp, si_allocator = alloc,
                   si_resizable = rsz, si_refcount = 1, si_pyobj_slot = empty_slot\<rparr>),
                 free_impls := as\<rparr>))"

section \<open>WrapProtocol: \<^verbatim>\<open>THPStorage_NewWithStorage\<close> and \<^verbatim>\<open>THPStorage_Wrap\<close>\<close>

text \<open>
  The two functions call each other, as in the source. A by-value
  \<^verbatim>\<open>c10::Storage\<close> argument holds one reference: it is moved into the wrapper's
  handle, moved into the callee, or released when the function leaves. The calls
  with three arguments pass \<open>False\<close> for \<^verbatim>\<open>allow_preexisting_pyobj\<close> (the
  default of the declaration, which the spec words as "unless
  \<open>allow_preexisting\<close> is set").
\<close>

function THPStorage_NewWithStorage ::
    "PyTypeObject \<Rightarrow> addr \<Rightarrow> PyInterpreterStatus \<Rightarrow> bool \<Rightarrow> heap \<Rightarrow> addr res"
  and THPStorage_Wrap :: "addr \<Rightarrow> heap \<Rightarrow> addr res" where
  "THPStorage_NewWithStorage type storage status allow_preexisting_pyobj st =
     (if \<not> PyType_IsSubtype type THPStorageType
      then (Inl NotStorageSubclass, decref storage st)
      else
        (case impls st storage of
           None \<Rightarrow> (Inl InvalidPointer, st)
         | Some im \<Rightarrow>
             (let maybe_pyobj = check_pyobj (si_pyobj_slot im) in
              if maybe_pyobj \<noteq> None \<and> maybe_pyobj \<noteq> Some 0 then
                (case objs st (the maybe_pyobj) of
                   None \<Rightarrow> (Inl InvalidPointer, st)
                 | Some ob \<Rightarrow>
                     if \<not> allow_preexisting_pyobj
                     then (Inl (AlreadyWrapped (tp_name type) (tp_name (ob_type ob))),
                           decref storage st)
                     else if \<not> (ob_type ob = type \<or> PyType_IsSubtype (ob_type ob) type)
                     then (Inl (AlreadyWrappedNotSubclass (tp_name type)
                                  (tp_name (ob_type ob))),
                           decref storage st)
                     else THPStorage_Wrap storage st)
              else
                (case tp_alloc type st of
                   (obj, st1) \<Rightarrow>
                     if obj = 0 then (Inl (AllocFailed (tp_name type)), decref storage st1)
                     else
                       (let st2 = assign_cdata obj (owned storage) st1;
                            st3 = (if \<not> hermetic st2
                                   then update_slot storage (init_pyobj obj status) st2
                                   else st2)
                        in (Inr obj, st3))))))"
| "THPStorage_Wrap storage st =
     (if hermetic st
      then THPStorage_NewWithStorage (THPStorageClass st) storage
             DEFINITELY_UNINITIALIZED False st
      else
        (case impls st storage of
           None \<Rightarrow> (Inl InvalidPointer, st)
         | Some storage_impl \<Rightarrow>
             (let maybe_pyobj = check_pyobj (si_pyobj_slot storage_impl) in
              if maybe_pyobj \<noteq> None \<and> maybe_pyobj \<noteq> Some 0 then
                (let obj = the maybe_pyobj in
                 if owns_pyobj (si_pyobj_slot storage_impl)
                 then (Inr obj,
                       assign_cdata obj (owned storage)
                         (update_slot storage (set_owns_pyobj False) st))
                 else (Inr obj, decref storage (Py_INCREF obj st)))
              else
                (let status =
                   (if maybe_pyobj \<noteq> None then TAGGED_BY_US
                    else if use_count st storage \<le> 1 then DEFINITELY_UNINITIALIZED
                    else MAYBE_UNINITIALIZED)
                 in THPStorage_NewWithStorage (THPStorageClass st) storage status False st))))"
  by pat_completeness auto
termination
  by (relation "measure (\<lambda>x. case x of
          Inl (t, s, u, a, h) \<Rightarrow> (if a then 2 else 0)
        | Inr (s, h) \<Rightarrow> 1)") auto

section \<open>PreservationProtocol: \<^verbatim>\<open>THPStorage_isPreservable\<close> and \<^verbatim>\<open>THPStorage_tryPreserve\<close>\<close>

definition THPStorage_isPreservable :: "addr \<Rightarrow> heap \<Rightarrow> error + bool" where
  "THPStorage_isPreservable self st =
     (case objs st self of
        None \<Rightarrow> Inl InvalidPointer
      | Some ob \<Rightarrow>
          if unsafeIsBorrowed (cdata ob) then Inr False
          else
            (case impls st (unsafeGetStorageImpl (cdata ob)) of
               None \<Rightarrow> Inl InvalidPointer
             | Some im \<Rightarrow>
                 if check_pyobj (si_pyobj_slot im) \<noteq> Some self then Inr False
                 else if use_count st (unsafeGetStorageImpl (cdata ob)) \<le> 1 then Inr False
                 else Inr True))"

definition THPStorage_tryPreserve :: "addr \<Rightarrow> heap \<Rightarrow> bool res" where
  "THPStorage_tryPreserve self st =
     (case THPStorage_isPreservable self st of
        Inl e \<Rightarrow> (Inl e, st)
      | Inr False \<Rightarrow> (Inr False, st)
      | Inr True \<Rightarrow>
          (case objs st self of
             None \<Rightarrow> (Inl InvalidPointer, st)
           | Some ob \<Rightarrow>
               (let storage = unsafeGetStorageImpl (cdata ob) in
                case impls st storage of
                  None \<Rightarrow> (Inl InvalidPointer, st)
                | Some storage_impl \<Rightarrow>
                    if owns_pyobj (si_pyobj_slot storage_impl) then (Inl InternalAssert, st)
                    else
                      (let st1 = update_slot storage (set_owns_pyobj True) st;
                           st2 = Py_INCREF self st1;
                           st3 = assign_cdata self (borrowed storage) st2
                       in (Inr True, st3)))))"

section \<open>TeardownSequence: \<^verbatim>\<open>THPStorage_subclass_dealloc\<close>\<close>



definition upd_obj :: "addr \<Rightarrow> (THPStorage \<Rightarrow> THPStorage) \<Rightarrow> heap \<Rightarrow> heap" where
  "upd_obj obj f st =
     (case objs st obj of
        None \<Rightarrow> st
      | Some ob \<Rightarrow> st\<lparr>objs := (objs st)(obj \<mapsto> f ob)\<rparr>)"

definition Py_REFCNT :: "heap \<Rightarrow> addr \<Rightarrow> int" where
  "Py_REFCNT st obj = (case objs st obj of None \<Rightarrow> 0 | Some ob \<Rightarrow> ob_refcnt ob)"










section \<open>Values of the interpreter and byte conversion\<close>

text \<open>\<^verbatim>\<open>THPUtils_typename\<close>: the \<^verbatim>\<open>tp_name\<close> of the value's type.\<close>

definition THPUtils_typename :: "heap \<Rightarrow> PyObject \<Rightarrow> string" where
  "THPUtils_typename st v =
     (case v of
        PyLong k \<Rightarrow> ''int''
      | PyStr s \<Rightarrow> ''str''
      | PyNone \<Rightarrow> ''NoneType''
      | PyList xs \<Rightarrow> ''list''
      | PyTuple xs \<Rightarrow> ''tuple''
      | PySlice a b c \<Rightarrow> ''slice''
      | PyStorage p \<Rightarrow> (case objs st p of None \<Rightarrow> [] | Some ob \<Rightarrow> tp_name (ob_type ob)))"

definition THPUtils_checkLong :: "PyObject \<Rightarrow> bool" where
  "THPUtils_checkLong v = (case v of PyLong k \<Rightarrow> True | _ \<Rightarrow> False)"

text \<open>
  \<^verbatim>\<open>THPUtils_unpackLong\<close> yields the \<^verbatim>\<open>int64_t\<close> value of a host integer and
  throws when the integer does not fit.
\<close>

definition THPUtils_unpackLong :: "PyObject \<Rightarrow> error + int" where
  "THPUtils_unpackLong v =
     (case v of
        PyLong k \<Rightarrow> if is_int64 k then Inr k else Inl OverflowUnpackingLong
      | _ \<Rightarrow> Inl OverflowUnpackingLong)"

text \<open>
  The macros \<^verbatim>\<open>THPByteUtils_checkReal\<close>, \<^verbatim>\<open>THPByteUtils_unpackReal\<close> and
  \<^verbatim>\<open>THPByteUtils_newReal\<close> are defined outside Storage.cpp: the functions of
  Storage.cpp take them as a parameter.
\<close>

record byte_utils =
  THPByteUtils_checkReal :: "PyObject \<Rightarrow> bool"
  THPByteUtils_unpackReal :: "PyObject \<Rightarrow> error + uint8"
  THPByteUtils_newReal :: "uint8 \<Rightarrow> PyObject"

text \<open>
  Modelled from the spec: the byte-conversion pair \<open>encode_byte/decode_byte\<close> of
  the spec's external interfaces, whose code is outside Storage.cpp. An element
  "must be convertible to a single byte value (0-255)": a host integer in that range
  converts, anything else does not.
\<close>

definition spec_byte_utils :: byte_utils where
  "spec_byte_utils =
     \<lparr>THPByteUtils_checkReal = (\<lambda>v. case v of PyLong k \<Rightarrow> True | _ \<Rightarrow> False),
      THPByteUtils_unpackReal =
        (\<lambda>v. case v of
               PyLong k \<Rightarrow> if 0 \<le> k \<and> k \<le> 255 then Inr (word_of_int k) else Inl CouldNotParseReal
             | _ \<Rightarrow> Inl CouldNotParseReal),
      THPByteUtils_newReal = (\<lambda>b. PyLong (uint b))\<rparr>"

section \<open>Access to the bytes\<close>

text \<open>
  Modelled from the spec: \<^verbatim>\<open>storage_get\<close> and \<^verbatim>\<open>storage_set\<close> are defined
  outside Storage.cpp. The spec's ByteAccessProtocol reads and writes the byte at an
  index and fails with \<open>IndexOutOfRange{index, length}\<close> for an index out of
  range; the index is taken as it is passed.
\<close>

definition storage_get :: "addr \<Rightarrow> int \<Rightarrow> heap \<Rightarrow> error + uint8" where
  "storage_get self idx st =
     (case impls st self of
        None \<Rightarrow> Inl InvalidPointer
      | Some im \<Rightarrow>
          if idx < 0 \<or> idx \<ge> int64_of (int (si_nbytes im))
          then Inl (IndexOutOfRange idx (si_nbytes im))
          else Inr (memory st (dp_data (si_data_ptr im) + nat idx)))"

definition storage_set :: "addr \<Rightarrow> int \<Rightarrow> uint8 \<Rightarrow> heap \<Rightarrow> unit res" where
  "storage_set self idx v st =
     (case impls st self of
        None \<Rightarrow> (Inl InvalidPointer, st)
      | Some im \<Rightarrow>
          if idx < 0 \<or> idx \<ge> int64_of (int (si_nbytes im))
          then (Inl (IndexOutOfRange idx (si_nbytes im)), st)
          else (Inr (), st\<lparr>memory := (memory st)(dp_data (si_data_ptr im) + nat idx := v)\<rparr>))"

text \<open>
  \<^verbatim>\<open>PySlice_GetIndicesEx\<close> of the host runtime: \<^verbatim>\<open>PySlice_Unpack\<close> followed by
  \<^verbatim>\<open>PySlice_AdjustIndices\<close>. The result is start, stop, step and the slice length.
\<close>

definition PY_SSIZE_T_MAX :: int where
  "PY_SSIZE_T_MAX = 2 ^ 63 - 1"

definition PY_SSIZE_T_MIN :: int where
  "PY_SSIZE_T_MIN = - (2 ^ 63)"

definition PyEval_SliceIndex :: "int \<Rightarrow> int" where
  "PyEval_SliceIndex k = max PY_SSIZE_T_MIN (min PY_SSIZE_T_MAX k)"

definition PySlice_Unpack ::
    "int option \<Rightarrow> int option \<Rightarrow> int option \<Rightarrow> error + (int \<times> int \<times> int)" where
  "PySlice_Unpack start stop step =
     (let step1 = (case step of None \<Rightarrow> 1 | Some k \<Rightarrow> PyEval_SliceIndex k) in
      if step1 = 0 then Inl SliceStepZero
      else
        (let step2 = (if step1 < - PY_SSIZE_T_MAX then - PY_SSIZE_T_MAX else step1);
             start1 = (case start of
                         None \<Rightarrow> if step2 < 0 then PY_SSIZE_T_MAX else 0
                       | Some k \<Rightarrow> PyEval_SliceIndex k);
             stop1 = (case stop of
                        None \<Rightarrow> if step2 < 0 then PY_SSIZE_T_MIN else PY_SSIZE_T_MAX
                      | Some k \<Rightarrow> PyEval_SliceIndex k)
         in Inr (start1, stop1, step2)))"

definition adjust_index :: "int \<Rightarrow> int \<Rightarrow> int \<Rightarrow> int" where
  "adjust_index len step k =
     (if k < 0 then
        (if k + len < 0 then (if step < 0 then - 1 else 0) else k + len)
      else if k \<ge> len then (if step < 0 then len - 1 else len)
      else k)"

definition PySlice_AdjustIndices :: "int \<Rightarrow> int \<Rightarrow> int \<Rightarrow> int \<Rightarrow> int \<times> int \<times> int" where
  "PySlice_AdjustIndices len start stop step =
     (let start1 = adjust_index len step start;
          stop1 = adjust_index len step stop;
          slicelength =
            (if step < 0
             then (if stop1 < start1 then (start1 - stop1 - 1) div (- step) + 1 else 0)
             else (if start1 < stop1 then (stop1 - start1 - 1) div step + 1 else 0))
      in (start1, stop1, slicelength))"

definition PySlice_GetIndicesEx ::
    "int option \<Rightarrow> int option \<Rightarrow> int option \<Rightarrow> int \<Rightarrow> error + (int \<times> int \<times> int \<times> int)" where
  "PySlice_GetIndicesEx start stop step len =
     (case PySlice_Unpack start stop step of
        Inl e \<Rightarrow> Inl e
      | Inr (start1, stop1, step1) \<Rightarrow>
          (case PySlice_AdjustIndices len start1 stop1 step1 of
             (start2, stop2, slicelength) \<Rightarrow> Inr (start2, stop2, step1, slicelength)))"

section \<open>ByteAccessProtocol and SliceView: \<^verbatim>\<open>THPStorage_get\<close>\<close>

text \<open>
  A function between \<^verbatim>\<open>HANDLE_TH_ERRORS\<close> and \<^verbatim>\<open>END_HANDLE_TH_ERRORS\<close> returns
  its value and the error indicator of the interpreter; a C++ exception becomes the
  error indicator and the error value (\<^verbatim>\<open>nullptr\<close>, or -1).
\<close>

type_synonym 'a pyres = "'a \<times> error option \<times> heap"

text \<open>The deleter of a data pointer, run on its context when the resource dies.\<close>

definition run_deleter :: "DataPtr \<Rightarrow> heap \<Rightarrow> heap" where
  "run_deleter dp st =
     (case dp_deleter dp of
        DecrefContext \<Rightarrow> decref (dp_ctx dp) st
      | AllocatorDeleter \<Rightarrow> st)"

definition THPStorage_get :: "byte_utils \<Rightarrow> addr \<Rightarrow> PyObject \<Rightarrow> heap \<Rightarrow> PyObject option pyres" where
  "THPStorage_get bu self index st =
     (case objs st self of
        None \<Rightarrow> (None, Some InvalidPointer, st)
      | Some ob \<Rightarrow>
          (let storage = unsafeGetStorageImpl (cdata ob) in
           if storage = 0 then (None, Some NullResource, st)
           else
             (case impls st storage of
                None \<Rightarrow> (None, Some InvalidPointer, st)
              | Some im \<Rightarrow>
                  if THPUtils_checkLong index then
                    (case THPUtils_unpackLong index of
                       Inl e \<Rightarrow> (None, Some e, st)
                     | Inr nindex0 \<Rightarrow>
                         (let nindex = (if nindex0 < 0
                                        then int64_of (nindex0 + int (si_nbytes im))
                                        else nindex0)
                          in if nindex < 0 \<or> nindex \<ge> int64_of (int (si_nbytes im))
                             then (None, Some (IndexOutOfRange nindex (si_nbytes im)), st)
                             else
                               (case storage_get storage nindex st of
                                  Inl e \<Rightarrow> (None, Some e, st)
                                | Inr v \<Rightarrow> (Some (THPByteUtils_newReal bu v), None, st))))
                  else
                    (case index of
                       PySlice a b c \<Rightarrow>
                         (case PySlice_GetIndicesEx a b c (int64_of (int (si_nbytes im))) of
                            Inl e \<Rightarrow> (None, Some e, st)
                          | Inr (start, stop, step, slicelength) \<Rightarrow>
                              if step \<noteq> 1 then (None, Some (UnsupportedStep step), st)
                              else
                                (let data = dp_data (si_data_ptr im);
                                     st1 = incref storage st;
                                     dp = \<lparr>dp_data = nat (int data + start), dp_ctx = storage,
                                           dp_deleter = DecrefContext,
                                           dp_device = dp_device (si_data_ptr im)\<rparr>
                                 in case make_intrusive (nat slicelength) dp
                                           (si_allocator im) False st1 of
                                      (Inl e, st2) \<Rightarrow> (None, Some e, run_deleter dp st2)
                                    | (Inr new_storage_impl, st2) \<Rightarrow>
                                        (case THPStorage_NewWithStorage (ob_type ob)
                                                new_storage_impl DEFINITELY_UNINITIALIZED
                                                False st2 of
                                           (Inl e, st3) \<Rightarrow> (None, Some e, st3)
                                         | (Inr ret, st3) \<Rightarrow>
                                             (Some (PyStorage ret), None, st3))))
                     | _ \<Rightarrow> (None, Some (CannotIndexWith (THPUtils_typename st index)), st)))))"

section \<open>ByteAccessProtocol: \<^verbatim>\<open>THPStorage_set\<close>\<close>

function set_loop :: "addr \<Rightarrow> int \<Rightarrow> int \<Rightarrow> uint8 \<Rightarrow> heap \<Rightarrow> unit res" where
  "set_loop storage start stop rvalue st =
     (if start < stop then
        (case storage_set storage start rvalue st of
           (Inl e, st1) \<Rightarrow> (Inl e, st1)
         | (Inr u, st1) \<Rightarrow> set_loop storage (start + 1) stop rvalue st1)
      else (Inr (), st))"
  by pat_completeness auto
termination
  by (relation "measure (\<lambda>(storage, start, stop, rvalue, st). nat (stop - start))") auto

definition THPStorage_set ::
    "byte_utils \<Rightarrow> addr \<Rightarrow> PyObject \<Rightarrow> PyObject \<Rightarrow> heap \<Rightarrow> int pyres" where
  "THPStorage_set bu self index v st =
     (case objs st self of
        None \<Rightarrow> (- 1, Some InvalidPointer, st)
      | Some ob \<Rightarrow>
          (let storage = unsafeGetStorageImpl (cdata ob) in
           if storage = 0 then (- 1, Some NullResource, st)
           else if \<not> THPByteUtils_checkReal bu v
           then (- 1, Some (InvalidValueType (THPUtils_typename st v)), st)
           else
             (case THPByteUtils_unpackReal bu v of
                Inl e \<Rightarrow> (- 1, Some e, st)
              | Inr rvalue \<Rightarrow>
                  if THPUtils_checkLong index then
                    (case THPUtils_unpackLong index of
                       Inl e \<Rightarrow> (- 1, Some e, st)
                     | Inr nindex \<Rightarrow>
                         (case storage_set storage nindex rvalue st of
                            (Inl e, st1) \<Rightarrow> (- 1, Some e, st1)
                          | (Inr u, st1) \<Rightarrow> (0, None, st1)))
                  else
                    (case index of
                       PySlice a b c \<Rightarrow>
                         (case impls st storage of
                            None \<Rightarrow> (- 1, Some InvalidPointer, st)
                          | Some im \<Rightarrow>
                              (case PySlice_GetIndicesEx a b c (int64_of (int (si_nbytes im))) of
                                 Inl e \<Rightarrow> (- 1, Some e, st)
                               | Inr (start, stop, step, slicelength) \<Rightarrow>
                                   if step \<noteq> 1 then (0, Some (UnsupportedStep step), st)
                                   else
                                     (case set_loop storage start stop rvalue st of
                                        (Inl e, st1) \<Rightarrow> (- 1, Some e, st1)
                                      | (Inr u, st1) \<Rightarrow> (0, None, st1))))
                     | _ \<Rightarrow> (- 1, Some (CannotIndexWith (THPUtils_typename st index)), st)))))"

section \<open>ConstructionProtocol: \<^verbatim>\<open>THPStorage_pynew\<close>\<close>

text \<open>
  The argument parser is outside Storage.cpp: the model starts from the parsed
  arguments, one of the three signatures with the optional allocator and device. The
  allocators of the build are parameters.
\<close>

datatype ctor_args = NoArgs | SizeArg int | SequenceArg PyObject

record build_env =
  USE_CUDA :: bool
  USE_MPS :: bool
  GetDefaultCPUAllocator :: int
  CUDACachingAllocator_get :: int
  GetMPSAllocator :: int
  GetAllocator :: "DeviceType \<Rightarrow> int"

definition resolve_allocator ::
    "build_env \<Rightarrow> int option \<Rightarrow> DeviceType option \<Rightarrow> error + int" where
  "resolve_allocator env allocator_opt device_opt =
     (case allocator_opt of
        Some a \<Rightarrow> Inr a
      | None \<Rightarrow>
          (case device_opt of
             Some device \<Rightarrow>
               if device = CPU then Inr (GetDefaultCPUAllocator env)
               else if USE_CUDA env \<and> device = CUDA then Inr (CUDACachingAllocator_get env)
               else if USE_MPS env \<and> device = MPS then Inr (GetMPSAllocator env)
               else if device = XPU then Inr (GetAllocator env device)
               else if device = Meta then Inr (GetAllocator env device)
               else Inl UnsupportedDevice
           | None \<Rightarrow> Inr (GetDefaultCPUAllocator env)))"

text \<open>
  \<^verbatim>\<open>c10::make_intrusive<c10::StorageImpl>\<close> with a size and an allocator: the bytes
  come from the allocator.
\<close>

definition make_intrusive_sized :: "int \<Rightarrow> int \<Rightarrow> bool \<Rightarrow> heap \<Rightarrow> addr res" where
  "make_intrusive_sized n alloc rsz st =
     (if n < 0 then (Inl BadAlloc, st)
      else
        make_intrusive (nat n)
          \<lparr>dp_data = free_mem st, dp_ctx = free_mem st, dp_deleter = AllocatorDeleter,
           dp_device = CPU\<rparr>
          alloc rsz (st\<lparr>free_mem := free_mem st + nat n\<rparr>))"

definition PySequence_items :: "PyObject \<Rightarrow> PyObject list option" where
  "PySequence_items v =
     (case v of
        PyList xs \<Rightarrow> Some xs
      | PyTuple xs \<Rightarrow> Some xs
      | PyStr s \<Rightarrow> Some (map (\<lambda>c. PyStr [c]) s)
      | _ \<Rightarrow> None)"

definition PySequence_Check :: "PyObject \<Rightarrow> bool" where
  "PySequence_Check v = (PySequence_items v \<noteq> None)"

definition PySequence_Length :: "PyObject \<Rightarrow> int" where
  "PySequence_Length v = (case PySequence_items v of None \<Rightarrow> - 1 | Some xs \<Rightarrow> int (length xs))"

definition unsafe_data_write :: "addr \<Rightarrow> int \<Rightarrow> uint8 \<Rightarrow> heap \<Rightarrow> unit res" where
  "unsafe_data_write self i v st =
     (case impls st self of
        None \<Rightarrow> (Inl InvalidPointer, st)
      | Some im \<Rightarrow>
          (Inr (), st\<lparr>memory := (memory st)(nat (int (dp_data (si_data_ptr im)) + i) := v)\<rparr>))"

text \<open>
  The loop over the sequence inside \<^verbatim>\<open>try\<close>. \<open>FillThrew item\<close>: an exception
  was thrown while \<^verbatim>\<open>item\<close> held that element.
\<close>

datatype fill_result = FillDone | FillThrew PyObject | FillInvalidPointer

fun fill_sequence ::
    "byte_utils \<Rightarrow> bool \<Rightarrow> addr \<Rightarrow> int \<Rightarrow> PyObject list \<Rightarrow> heap \<Rightarrow> fill_result \<times> heap" where
  "fill_sequence bu direct storage i [] st = (FillDone, st)"
| "fill_sequence bu direct storage i (item # items) st =
     (case THPByteUtils_unpackReal bu item of
        Inl e \<Rightarrow> (FillThrew item, st)
      | Inr v \<Rightarrow>
          (case (if direct then unsafe_data_write storage i v st
                 else storage_set storage i v st) of
             (Inl e, st1) \<Rightarrow>
               if e = InvalidPointer then (FillInvalidPointer, st1) else (FillThrew item, st1)
           | (Inr u, st1) \<Rightarrow> fill_sequence bu direct storage (i + 1) items st1))"

definition THPStorage_pynew ::
    "build_env \<Rightarrow> byte_utils \<Rightarrow> PyTypeObject \<Rightarrow> ctor_args \<Rightarrow> int option \<Rightarrow> DeviceType option
       \<Rightarrow> heap \<Rightarrow> PyObject option pyres" where
  "THPStorage_pynew env bu type args allocator_opt device_opt st =
     (if type = THPStorageType then (None, Some CannotConstructBase, st)
      else if allocator_opt \<noteq> None \<and> device_opt \<noteq> None
      then (None, Some ConflictingAllocatorSpec, st)
      else
        (case resolve_allocator env allocator_opt device_opt of
           Inl e \<Rightarrow> (None, Some e, st)
         | Inr allocator \<Rightarrow>
             (let new_sized = (\<lambda>n.
                    case make_intrusive_sized n allocator True st of
                      (Inl e, st1) \<Rightarrow> (None, Some e, st1)
                    | (Inr impl, st1) \<Rightarrow>
                        (case THPStorage_NewWithStorage type impl
                                DEFINITELY_UNINITIALIZED False st1 of
                           (Inl e, st2) \<Rightarrow> (None, Some e, st2)
                         | (Inr self, st2) \<Rightarrow> (Some (PyStorage self), None, st2)))
              in case args of
                   NoArgs \<Rightarrow> new_sized 0
                 | SizeArg n \<Rightarrow> new_sized n
                 | SequenceArg sequence \<Rightarrow>
                     (let len = PySequence_Length sequence in
                      if \<not> PySequence_Check sequence
                      then (None, Some (NotASequence (THPUtils_typename st sequence)), st)
                      else if len < 0
                      then (None, Some (NoSequenceLength (THPUtils_typename st sequence)), st)
                      else
                        (case make_intrusive_sized len allocator True st of
                           (Inl e, st1) \<Rightarrow> (None, Some e, st1)
                         | (Inr impl, st1) \<Rightarrow>
                             (case THPStorage_NewWithStorage type impl
                                     DEFINITELY_UNINITIALIZED False st1 of
                                (Inl e, st2) \<Rightarrow> (None, Some e, st2)
                              | (Inr self, st2) \<Rightarrow>
                                  (case objs st2 self of
                                     None \<Rightarrow> (None, Some InvalidPointer, st2)
                                   | Some ob \<Rightarrow>
                                       (case fill_sequence bu
                                               (allocator = GetDefaultCPUAllocator env)
                                               (unsafeGetStorageImpl (cdata ob)) 0
                                               (the (PySequence_items sequence)) st2 of
                                          (FillThrew item, st3) \<Rightarrow>
                                            (None,
                                             Some (InvalidElementType
                                                     (THPUtils_typename st3 sequence)
                                                     (THPUtils_typename st3 item)),
                                             st3)
                                        | (FillInvalidPointer, st3) \<Rightarrow>
                                            (None, Some InvalidPointer, st3)
                                        | (FillDone, st3) \<Rightarrow>
                                            (Some (PyStorage self), None, st3)))))))))"

section \<open>Well-formed heaps and reachable states\<close>

text \<open>
  The ownership invariant speaks of the slot of each resource, the handle of each
  wrapper and the free lists only; these projections forget the reference counts
  and the bytes.
\<close>

definition slot_of :: "heap \<Rightarrow> addr \<Rightarrow> PyObjectSlot option" where
  "slot_of st i = map_option si_pyobj_slot (impls st i)"

definition handle_of :: "heap \<Rightarrow> addr \<Rightarrow> MaybeOwned option" where
  "handle_of st obj = map_option cdata (objs st obj)"

definition type_of :: "heap \<Rightarrow> addr \<Rightarrow> PyTypeObject option" where
  "type_of st obj = map_option ob_type (objs st obj)"

text \<open>
  A slot that references a wrapper references a live wrapper whose handle points
  back at the resource, and the handle is borrowed exactly when the slot owns the
  wrapper.
\<close>

definition slots_ok :: "heap \<Rightarrow> bool" where
  "slots_ok st \<longleftrightarrow>
     (\<forall>i s obj. slot_of st i = Some s \<longrightarrow> slot_pyobj s = Some obj \<longrightarrow> obj \<noteq> 0 \<longrightarrow>
        (\<exists>c. handle_of st obj = Some c \<and> unsafeGetStorageImpl c = i \<and>
             unsafeIsBorrowed c = slot_owns_pyobj s))"

definition owns_ok :: "heap \<Rightarrow> bool" where
  "owns_ok st \<longleftrightarrow>
     (\<forall>i s. slot_of st i = Some s \<longrightarrow> slot_owns_pyobj s \<longrightarrow>
        (\<exists>obj. slot_pyobj s = Some obj \<and> obj \<noteq> 0))"

definition handles_ok :: "heap \<Rightarrow> bool" where
  "handles_ok st \<longleftrightarrow>
     (\<forall>obj c. handle_of st obj = Some c \<longrightarrow>
        obj \<noteq> 0 \<and> slot_of st (unsafeGetStorageImpl c) \<noteq> None)"

definition types_ok :: "heap \<Rightarrow> bool" where
  "types_ok st \<longleftrightarrow>
     (\<forall>obj t. type_of st obj = Some t \<longrightarrow> PyType_IsSubtype t THPStorageType)"

definition free_ok :: "heap \<Rightarrow> bool" where
  "free_ok st \<longleftrightarrow>
     slot_of st 0 = None \<and>
     distinct (free_objs st) \<and> 0 \<notin> set (free_objs st) \<and>
     (\<forall>a \<in> set (free_objs st). handle_of st a = None) \<and>
     distinct (free_impls st) \<and> 0 \<notin> set (free_impls st) \<and>
     (\<forall>a \<in> set (free_impls st). slot_of st a = None)"

definition wf_heap :: "heap \<Rightarrow> bool" where
  "wf_heap st \<longleftrightarrow> slots_ok st \<and> owns_ok st \<and> handles_ok st \<and> types_ok st \<and> free_ok st"

text \<open>
  The states the operations of Storage.cpp other than the teardown reach, from a
  heap without resources and wrappers: native code creates resources and takes and
  drops references, the host takes references and switches hermetic mode, and the
  functions of Storage.cpp run with any arguments, whatever they return.
\<close>

inductive reachable :: "heap \<Rightarrow> bool" where
  reach_init:
    "distinct fo \<Longrightarrow> 0 \<notin> set fo \<Longrightarrow> distinct fi \<Longrightarrow> 0 \<notin> set fi \<Longrightarrow>
     reachable \<lparr>impls = Map.empty, objs = Map.empty, memory = m, hermetic = h,
                THPStorageClass = cls, free_objs = fo, free_impls = fi, free_mem = fm\<rparr>"
| reach_make:
    "reachable st \<Longrightarrow> make_intrusive n dp alloc rsz st = (r, st') \<Longrightarrow> reachable st'"
| reach_incref: "reachable st \<Longrightarrow> reachable (incref i st)"
| reach_decref: "reachable st \<Longrightarrow> reachable (decref i st)"
| reach_Py_INCREF: "reachable st \<Longrightarrow> reachable (Py_INCREF obj st)"
| reach_hermetic: "reachable st \<Longrightarrow> reachable (st\<lparr>hermetic := h\<rparr>)"
| reach_Wrap: "reachable st \<Longrightarrow> THPStorage_Wrap i st = (r, st') \<Longrightarrow> reachable st'"
| reach_NewWithStorage:
    "reachable st \<Longrightarrow> THPStorage_NewWithStorage type i status allow st = (r, st') \<Longrightarrow>
     reachable st'"
| reach_tryPreserve:
    "reachable st \<Longrightarrow> THPStorage_tryPreserve self st = (b, st') \<Longrightarrow> reachable st'"
| reach_get:
    "reachable st \<Longrightarrow> THPStorage_get bu self index st = (v, e, st') \<Longrightarrow> reachable st'"
| reach_set:
    "reachable st \<Longrightarrow> THPStorage_set bu self index x st = (k, e, st') \<Longrightarrow> reachable st'"
| reach_pynew:
    "reachable st \<Longrightarrow> THPStorage_pynew env bu type args ao dev st = (v, e, st') \<Longrightarrow>
     reachable st'"

section \<open>Example states\<close>

definition UntypedStorage :: PyTypeObject where
  "UntypedStorage =
     PyTypeObject ''torch.UntypedStorage'' (Some THPStorageType) False True False False 0 0 0"

definition demo_env :: build_env where
  "demo_env =
     \<lparr>USE_CUDA = False, USE_MPS = False, GetDefaultCPUAllocator = 1000,
      CUDACachingAllocator_get = 2000, GetMPSAllocator = 3000, GetAllocator = (\<lambda>d. 4000)\<rparr>"

text \<open>No resource, no wrapper.\<close>

definition demo_init :: heap where
  "demo_init =
     \<lparr>impls = Map.empty, objs = Map.empty, memory = (\<lambda>a. 0), hermetic = False,
      THPStorageClass = UntypedStorage, free_objs = [1, 2, 3], free_impls = [1, 2, 3],
      free_mem = 100\<rparr>"

definition demo_slot :: "bool \<Rightarrow> PyObjectSlot" where
  "demo_slot own =
     \<lparr>slot_pyobj = Some 1, slot_owns_pyobj = own, slot_status = Some DEFINITELY_UNINITIALIZED\<rparr>"

definition demo_impl :: "nat \<Rightarrow> PyObjectSlot \<Rightarrow> StorageImpl" where
  "demo_impl rc s =
     \<lparr>si_nbytes = 5,
      si_data_ptr = \<lparr>dp_data = 100, dp_ctx = 100, dp_deleter = AllocatorDeleter, dp_device = CPU\<rparr>,
      si_allocator = 1000, si_resizable = True, si_refcount = rc, si_pyobj_slot = s\<rparr>"

definition demo_obj :: "int \<Rightarrow> MaybeOwned \<Rightarrow> THPStorage" where
  "demo_obj rc c =
     \<lparr>ob_refcnt = rc, ob_type = UntypedStorage, cdata = c, gc_tracked = False,
      weakreflist = [], ob_dict = 0\<rparr>"

definition demo_bytes :: "addr \<Rightarrow> uint8" where
  "demo_bytes = (\<lambda>a. 0)(100 := 1, 101 := 2, 102 := 3, 103 := 4, 104 := 5)"

text \<open>
  The state after \<^verbatim>\<open>UntypedStorage([1, 2, 3, 4, 5])\<close>: resource 1 of five bytes at
  address 100, reference count \<open>rc\<close>, and its wrapper 1 with host reference count
  \<open>hrc\<close>; \<open>c\<close> is the wrapper's handle and \<open>own\<close> the slot's flag.
\<close>

definition demo_heap :: "nat \<Rightarrow> int \<Rightarrow> MaybeOwned \<Rightarrow> bool \<Rightarrow> heap" where
  "demo_heap rc hrc c own =
     \<lparr>impls = [1 \<mapsto> demo_impl rc (demo_slot own)], objs = [1 \<mapsto> demo_obj hrc c],
      memory = demo_bytes, hermetic = False, THPStorageClass = UntypedStorage,
      free_objs = [2, 3], free_impls = [2, 3], free_mem = 105\<rparr>"

text \<open>A second subclass of the base wrapper type.\<close>

definition OtherStorage :: PyTypeObject where
  "OtherStorage =
     PyTypeObject ''OtherStorage'' (Some THPStorageType) False True False False 0 0 0"

section \<open>Hooks of the teardown\<close>










section \<open>Machine integers in range\<close>

declare THPStorage_NewWithStorage.simps [simp del] THPStorage_Wrap.simps [simp del]
  set_loop.simps [simp del]

lemma int64_of_id: "is_int64 k \<Longrightarrow> int64_of k = k"
  unfolding is_int64_def int64_of_def
  by (rule signed_take_bit_int_eq_self) simp_all

lemma int_less_2p63: "n < 2 ^ 63 \<Longrightarrow> int n < 2 ^ 63"
  by (metis of_nat_less_numeral_power_cancel_iff)

lemma int64_of_nat: "n < 2 ^ 63 \<Longrightarrow> int64_of (int n) = int n"
  by (rule int64_of_id) (use int_less_2p63 in \<open>simp add: is_int64_def\<close>)

section \<open>The operations keep the heap well-formed\<close>

lemmas wf_defs = wf_heap_def slots_ok_def owns_ok_def handles_ok_def types_ok_def free_ok_def

lemma proj_decref [simp]:
  "slot_of (decref j st) = slot_of st" "handle_of (decref j st) = handle_of st"
  "type_of (decref j st) = type_of st" "free_objs (decref j st) = free_objs st"
  "free_impls (decref j st) = free_impls st" "hermetic (decref j st) = hermetic st"
  "objs (decref j st) = objs st"
  by (auto simp: slot_of_def handle_of_def type_of_def decref_def fun_eq_iff split: option.splits)

lemma proj_incref [simp]:
  "slot_of (incref j st) = slot_of st" "handle_of (incref j st) = handle_of st"
  "type_of (incref j st) = type_of st" "free_objs (incref j st) = free_objs st"
  "free_impls (incref j st) = free_impls st" "hermetic (incref j st) = hermetic st"
  "objs (incref j st) = objs st"
  by (auto simp: slot_of_def handle_of_def type_of_def incref_def fun_eq_iff split: option.splits)

lemma proj_Py_INCREF [simp]:
  "slot_of (Py_INCREF j st) = slot_of st" "handle_of (Py_INCREF j st) = handle_of st"
  "type_of (Py_INCREF j st) = type_of st" "free_objs (Py_INCREF j st) = free_objs st"
  "free_impls (Py_INCREF j st) = free_impls st" "hermetic (Py_INCREF j st) = hermetic st"
  "impls (Py_INCREF j st) = impls st"
  by (auto simp: slot_of_def handle_of_def type_of_def Py_INCREF_def fun_eq_iff split: option.splits)

lemma wf_decref [simp]: "wf_heap (decref j st) = wf_heap st"
  by (simp add: wf_defs)

lemma wf_incref [simp]: "wf_heap (incref j st) = wf_heap st"
  by (simp add: wf_defs)

lemma wf_Py_INCREF [simp]: "wf_heap (Py_INCREF j st) = wf_heap st"
  by (simp add: wf_defs)

lemma proj_update_slot [simp]:
  "slot_of (update_slot i f st) = (slot_of st)(i := map_option f (slot_of st i))"
  "handle_of (update_slot i f st) = handle_of st"
  "type_of (update_slot i f st) = type_of st" "free_objs (update_slot i f st) = free_objs st"
  "free_impls (update_slot i f st) = free_impls st" "hermetic (update_slot i f st) = hermetic st"
  "objs (update_slot i f st) = objs st"
  by (auto simp: slot_of_def handle_of_def type_of_def update_slot_def fun_eq_iff split: option.splits)

lemma proj_assign_cdata [simp]:
  "slot_of (assign_cdata obj c st) = slot_of st"
  "handle_of (assign_cdata obj c st) = (handle_of st)(obj := map_option (\<lambda>_. c) (handle_of st obj))"
  "type_of (assign_cdata obj c st) = type_of st" "free_objs (assign_cdata obj c st) = free_objs st"
  "free_impls (assign_cdata obj c st) = free_impls st" "hermetic (assign_cdata obj c st) = hermetic st"
  by (auto simp: slot_of_def handle_of_def type_of_def assign_cdata_def destroy_cdata_def
      decref_def fun_eq_iff split: option.splits MaybeOwned.splits)










lemma slot_of_Some: "impls st i = Some im \<Longrightarrow> slot_of st i = Some (si_pyobj_slot im)"
  by (simp add: slot_of_def)






lemma proj_memory [simp]:
  "slot_of (st\<lparr>memory := m\<rparr>) = slot_of st" "handle_of (st\<lparr>memory := m\<rparr>) = handle_of st"
  "type_of (st\<lparr>memory := m\<rparr>) = type_of st"
  by (simp_all add: slot_of_def handle_of_def type_of_def fun_eq_iff)

lemma proj_hermetic [simp]:
  "slot_of (st\<lparr>hermetic := h\<rparr>) = slot_of st" "handle_of (st\<lparr>hermetic := h\<rparr>) = handle_of st"
  "type_of (st\<lparr>hermetic := h\<rparr>) = type_of st"
  by (simp_all add: slot_of_def handle_of_def type_of_def fun_eq_iff)

lemma proj_free_mem [simp]:
  "slot_of (st\<lparr>free_mem := k\<rparr>) = slot_of st" "handle_of (st\<lparr>free_mem := k\<rparr>) = handle_of st"
  "type_of (st\<lparr>free_mem := k\<rparr>) = type_of st"
  by (simp_all add: slot_of_def handle_of_def type_of_def fun_eq_iff)

lemma wf_memory [simp]: "wf_heap (st\<lparr>memory := m\<rparr>) = wf_heap st"
  by (simp add: wf_defs)

lemma wf_hermetic [simp]: "wf_heap (st\<lparr>hermetic := h\<rparr>) = wf_heap st"
  by (simp add: wf_defs)

lemma wf_free_mem [simp]: "wf_heap (st\<lparr>free_mem := k\<rparr>) = wf_heap st"
  by (simp add: wf_defs)










lemma wf_run_deleter [simp]: "wf_heap (run_deleter dp st) = wf_heap st"
  by (simp add: run_deleter_def split: Deleter.splits)






section \<open>The example states are reachable\<close>

lemmas demo_defs = demo_heap_def demo_impl_def demo_slot_def demo_obj_def demo_bytes_def
  demo_init_def demo_env_def UntypedStorage_def THPStorageType_def

lemma demo_pynew:
  "THPStorage_pynew demo_env spec_byte_utils UntypedStorage
     (SequenceArg (PyList [PyLong 1, PyLong 2, PyLong 3, PyLong 4, PyLong 5])) None None demo_init
   = (Some (PyStorage 1), None, demo_heap 1 1 (owned 1) False)"
  by (simp add: THPStorage_pynew_def spec_byte_utils_def
      resolve_allocator_def PySequence_Length_def PySequence_Check_def
      PySequence_items_def make_intrusive_sized_def make_intrusive_def
      THPStorage_NewWithStorage.simps check_pyobj_def empty_slot_def tp_alloc_def
      assign_cdata_def destroy_cdata_def update_slot_def init_pyobj_def unsafe_data_write_def
      demo_defs Let_def)

lemma demo_incref: "incref 1 (demo_heap 1 1 (owned 1) False) = demo_heap 2 1 (owned 1) False"
  by (simp add: incref_def demo_defs flip: numeral_2_eq_2)

lemma demo_incref2: "incref 1 (demo_heap 1 2 (borrowed 1) True) = demo_heap 2 2 (borrowed 1) True"
  by (simp add: incref_def demo_defs flip: numeral_2_eq_2)

lemma demo_preserve:
  "THPStorage_tryPreserve 1 (demo_heap 2 1 (owned 1) False)
     = (Inr True, demo_heap 1 2 (borrowed 1) True)"
  by (simp add: THPStorage_tryPreserve_def THPStorage_isPreservable_def check_pyobj_def
      use_count_def owns_pyobj_def update_slot_def set_owns_pyobj_def Py_INCREF_def
      assign_cdata_def destroy_cdata_def decref_def demo_defs Let_def)

lemma demo_reclaim:
  "THPStorage_Wrap 1 (demo_heap 2 2 (borrowed 1) True) = (Inr 1, demo_heap 2 2 (owned 1) False)"
  by (simp add: THPStorage_Wrap.simps check_pyobj_def
      use_count_def owns_pyobj_def update_slot_def set_owns_pyobj_def Py_INCREF_def
      assign_cdata_def destroy_cdata_def decref_def demo_defs Let_def)

lemma demo_rewrap:
  "THPStorage_Wrap 1 (demo_heap 2 1 (owned 1) False) = (Inr 1, demo_heap 1 2 (owned 1) False)"
  by (simp add: THPStorage_Wrap.simps check_pyobj_def
      use_count_def owns_pyobj_def update_slot_def set_owns_pyobj_def Py_INCREF_def
      assign_cdata_def destroy_cdata_def decref_def demo_defs Let_def)

lemma demo_reachable_fresh: "reachable (demo_heap 1 1 (owned 1) False)"
proof -
  have "reachable demo_init" unfolding demo_init_def by (rule reach_init) simp_all
  then show ?thesis using demo_pynew by (rule reach_pynew)
qed

lemma demo_reachable_shared: "reachable (demo_heap 2 1 (owned 1) False)"
  using reach_incref[OF demo_reachable_fresh, of 1] by (simp only: demo_incref)

lemma demo_reachable_preserved: "reachable (demo_heap 1 2 (borrowed 1) True)"
  using demo_reachable_shared demo_preserve by (rule reach_tryPreserve)

lemma demo_reachable_dormant: "reachable (demo_heap 2 2 (borrowed 1) True)"
  using reach_incref[OF demo_reachable_preserved, of 1] by (simp only: demo_incref2)

section \<open>Ownership exclusivity\<close>






section \<open>PreservationProtocol\<close>

lemma objs_assign_cdata:
  "objs (assign_cdata obj c st) =
     (case objs st obj of None \<Rightarrow> objs st | Some ob \<Rightarrow> (objs st)(obj \<mapsto> ob\<lparr>cdata := c\<rparr>))"
  by (auto simp: assign_cdata_def destroy_cdata_def decref_def
      split: option.splits MaybeOwned.splits)

lemma objs_Py_INCREF:
  "objs (Py_INCREF obj st) =
     (case objs st obj of None \<Rightarrow> objs st
      | Some ob \<Rightarrow> (objs st)(obj \<mapsto> ob\<lparr>ob_refcnt := ob_refcnt ob + 1\<rparr>))"
  by (auto simp: Py_INCREF_def split: option.splits)

lemma Wrap_live_wrapper:
  assumes nh: "\<not> hermetic st" and im: "impls st i = Some im"
    and sl: "check_pyobj (si_pyobj_slot im) = Some obj" and o0: "obj \<noteq> 0"
    and ob: "objs st obj = Some ob"
  shows "fst (THPStorage_Wrap i st) = Inr obj"
    and "dom (objs (snd (THPStorage_Wrap i st))) = dom (objs st)"
    and "free_objs (snd (THPStorage_Wrap i st)) = free_objs st"
    and "owns_pyobj (si_pyobj_slot im) \<Longrightarrow>
           objs (snd (THPStorage_Wrap i st)) obj = Some (ob\<lparr>cdata := owned i\<rparr>) \<and>
           slot_of (snd (THPStorage_Wrap i st)) i
             = Some ((si_pyobj_slot im)\<lparr>slot_owns_pyobj := False\<rparr>)"
    and "\<not> owns_pyobj (si_pyobj_slot im) \<Longrightarrow>
           objs (snd (THPStorage_Wrap i st)) obj = Some (ob\<lparr>ob_refcnt := ob_refcnt ob + 1\<rparr>) \<and>
           slot_of (snd (THPStorage_Wrap i st)) i = Some (si_pyobj_slot im)"
proof -
  have w: "THPStorage_Wrap i st =
      (if owns_pyobj (si_pyobj_slot im)
       then (Inr obj, assign_cdata obj (owned i) (update_slot i (set_owns_pyobj False) st))
       else (Inr obj, decref i (Py_INCREF obj st)))"
    using nh im sl o0 by (simp add: THPStorage_Wrap.simps)
  have s: "slot_of st i = Some (si_pyobj_slot im)" using im by (rule slot_of_Some)
  show "fst (THPStorage_Wrap i st) = Inr obj" using w by simp
  show "dom (objs (snd (THPStorage_Wrap i st))) = dom (objs st)"
    using w ob by (auto simp: objs_assign_cdata objs_Py_INCREF)
  show "free_objs (snd (THPStorage_Wrap i st)) = free_objs st"
    using w by simp
  show "objs (snd (THPStorage_Wrap i st)) obj = Some (ob\<lparr>cdata := owned i\<rparr>) \<and>
           slot_of (snd (THPStorage_Wrap i st)) i
             = Some ((si_pyobj_slot im)\<lparr>slot_owns_pyobj := False\<rparr>)"
    if "owns_pyobj (si_pyobj_slot im)"
    using w that ob s by (simp add: objs_assign_cdata set_owns_pyobj_def)
  show "objs (snd (THPStorage_Wrap i st)) obj = Some (ob\<lparr>ob_refcnt := ob_refcnt ob + 1\<rparr>) \<and>
           slot_of (snd (THPStorage_Wrap i st)) i = Some (si_pyobj_slot im)"
    if "\<not> owns_pyobj (si_pyobj_slot im)"
    using w that ob s by (simp add: objs_Py_INCREF)
qed




section \<open>WrapProtocol: a resource that already has a wrapper\<close>

text \<open>
  C1 (as amended). When hermetic mode is off, for every resource whose slot
  references a live wrapper \<^verbatim>\<open>THPStorage_Wrap\<close> returns that wrapper and
  allocates no object. If the slot owns the wrapper, the wrapper's handle becomes the
  owned handle on the resource, the slot's flag is cleared and the host reference
  count is unchanged; otherwise the host reference count is one higher, and handle
  and slot are unchanged.
\<close>

theorem Wrap_existing_wrapper:
  assumes "\<not> hermetic st" and "impls st i = Some im"
    and "check_pyobj (si_pyobj_slot im) = Some obj" and "obj \<noteq> 0"
    and "objs st obj = Some ob"
  shows "fst (THPStorage_Wrap i st) = Inr obj \<and>
     dom (objs (snd (THPStorage_Wrap i st))) = dom (objs st) \<and>
     free_objs (snd (THPStorage_Wrap i st)) = free_objs st \<and>
     (if owns_pyobj (si_pyobj_slot im)
      then objs (snd (THPStorage_Wrap i st)) obj = Some (ob\<lparr>cdata := owned i\<rparr>) \<and>
           slot_of (snd (THPStorage_Wrap i st)) i
             = Some ((si_pyobj_slot im)\<lparr>slot_owns_pyobj := False\<rparr>)
      else objs (snd (THPStorage_Wrap i st)) obj = Some (ob\<lparr>ob_refcnt := ob_refcnt ob + 1\<rparr>) \<and>
           slot_of (snd (THPStorage_Wrap i st)) i = Some (si_pyobj_slot im))"
  using Wrap_live_wrapper[OF assms] by simp

theorem Wrap_existing_wrapper_witness:
  "fst (THPStorage_Wrap 1 (demo_heap 2 2 (borrowed 1) True)) = Inr 1 \<and>
   objs (snd (THPStorage_Wrap 1 (demo_heap 2 2 (borrowed 1) True))) 1 = Some (demo_obj 2 (owned 1)) \<and>
   slot_of (snd (THPStorage_Wrap 1 (demo_heap 2 2 (borrowed 1) True))) 1 = Some (demo_slot False) \<and>
   fst (THPStorage_Wrap 1 (demo_heap 2 1 (owned 1) False)) = Inr 1 \<and>
   objs (snd (THPStorage_Wrap 1 (demo_heap 2 1 (owned 1) False))) 1 = Some (demo_obj 2 (owned 1))"
proof -
  have a: "fst (THPStorage_Wrap 1 (demo_heap 2 2 (borrowed 1) True)) = Inr 1 \<and>
     objs (snd (THPStorage_Wrap 1 (demo_heap 2 2 (borrowed 1) True))) 1 = Some (demo_obj 2 (owned 1)) \<and>
     slot_of (snd (THPStorage_Wrap 1 (demo_heap 2 2 (borrowed 1) True))) 1 = Some (demo_slot False)"
    using Wrap_existing_wrapper[of "demo_heap 2 2 (borrowed 1) True" 1
        "demo_impl 2 (demo_slot True)" 1 "demo_obj 2 (borrowed 1)"]
    by (simp add: demo_defs check_pyobj_def owns_pyobj_def)
  have b: "fst (THPStorage_Wrap 1 (demo_heap 2 1 (owned 1) False)) = Inr 1 \<and>
     objs (snd (THPStorage_Wrap 1 (demo_heap 2 1 (owned 1) False))) 1 = Some (demo_obj 2 (owned 1))"
    using Wrap_existing_wrapper[of "demo_heap 2 1 (owned 1) False" 1
        "demo_impl 2 (demo_slot False)" 1 "demo_obj 1 (owned 1)"]
    by (simp add: demo_defs check_pyobj_def owns_pyobj_def)
  show ?thesis using a b by simp
qed

text \<open>
  In hermetic mode the claim fails: \<^verbatim>\<open>THPStorage_Wrap\<close> hands the resource to
  \<^verbatim>\<open>THPStorage_NewWithStorage\<close> without looking at the slot, and for a resource
  that has a live wrapper the call raises instead of returning the wrapper.
\<close>

theorem Wrap_hermetic_counterexample:
  "impls ((demo_heap 2 1 (owned 1) False)\<lparr>hermetic := True\<rparr>) 1
     = Some (demo_impl 2 (demo_slot False)) \<and>
   check_pyobj (demo_slot False) = Some 1 \<and>
   objs ((demo_heap 2 1 (owned 1) False)\<lparr>hermetic := True\<rparr>) 1 = Some (demo_obj 1 (owned 1)) \<and>
   THPStorage_Wrap 1 ((demo_heap 2 1 (owned 1) False)\<lparr>hermetic := True\<rparr>)
     = (Inl (AlreadyWrapped ''torch.UntypedStorage'' ''torch.UntypedStorage''),
        (demo_heap 1 1 (owned 1) False)\<lparr>hermetic := True\<rparr>) \<and>
   fst (THPStorage_Wrap 1 ((demo_heap 2 1 (owned 1) False)\<lparr>hermetic := True\<rparr>)) \<noteq> Inr 1"
  by (simp add: THPStorage_Wrap.simps THPStorage_NewWithStorage.simps check_pyobj_def
      decref_def demo_defs)

section \<open>WrapProtocol: \<^verbatim>\<open>THPStorage_NewWithStorage\<close> on a resource that has a wrapper\<close>

text \<open>
  C6 (as amended). When the requested type is a storage type and the slot of the
  resource references a live wrapper, \<^verbatim>\<open>THPStorage_NewWithStorage\<close> fails with
  AlreadyWrapped whenever \<open>allow_preexisting_pyobj\<close> is not set, whatever the
  types; when it is set, it still fails (with the second AlreadyWrapped message)
  unless the existing wrapper's type is the requested type or a subtype of it. Only
  when the flag is set and the type fits does the call hand over to
  \<^verbatim>\<open>THPStorage_Wrap\<close>, which (hermetic mode off) returns the existing wrapper,
  allocates nothing and leaves the wrapper's type as it is.
\<close>

theorem NewWithStorage_preexisting:
  assumes ty: "PyType_IsSubtype type THPStorageType" and im: "impls st i = Some im"
    and sl: "check_pyobj (si_pyobj_slot im) = Some obj" and o0: "obj \<noteq> 0"
    and ob: "objs st obj = Some ob"
  shows "(\<not> allow \<longrightarrow>
            THPStorage_NewWithStorage type i status allow st
              = (Inl (AlreadyWrapped (tp_name type) (tp_name (ob_type ob))), decref i st)) \<and>
         (allow \<and> \<not> (ob_type ob = type \<or> PyType_IsSubtype (ob_type ob) type) \<longrightarrow>
            THPStorage_NewWithStorage type i status allow st
              = (Inl (AlreadyWrappedNotSubclass (tp_name type) (tp_name (ob_type ob))),
                 decref i st)) \<and>
         (allow \<and> (ob_type ob = type \<or> PyType_IsSubtype (ob_type ob) type) \<longrightarrow>
            THPStorage_NewWithStorage type i status allow st = THPStorage_Wrap i st \<and>
            (\<not> hermetic st \<longrightarrow>
               fst (THPStorage_NewWithStorage type i status allow st) = Inr obj \<and>
               dom (objs (snd (THPStorage_NewWithStorage type i status allow st)))
                 = dom (objs st) \<and>
               map_option ob_type (objs (snd (THPStorage_NewWithStorage type i status allow st)) obj)
                 = Some (ob_type ob)))"
proof -
  have n: "THPStorage_NewWithStorage type i status allow st =
     (if \<not> allow
      then (Inl (AlreadyWrapped (tp_name type) (tp_name (ob_type ob))), decref i st)
      else if \<not> (ob_type ob = type \<or> PyType_IsSubtype (ob_type ob) type)
      then (Inl (AlreadyWrappedNotSubclass (tp_name type) (tp_name (ob_type ob))), decref i st)
      else THPStorage_Wrap i st)"
    using ty im sl o0 ob by (simp add: THPStorage_NewWithStorage.simps)
  have w: "fst (THPStorage_Wrap i st) = Inr obj \<and>
      dom (objs (snd (THPStorage_Wrap i st))) = dom (objs st) \<and>
      map_option ob_type (objs (snd (THPStorage_Wrap i st)) obj) = Some (ob_type ob)"
    if nh: "\<not> hermetic st"
    using Wrap_live_wrapper[OF nh im sl o0 ob]
    by (cases "owns_pyobj (si_pyobj_slot im)") simp_all
  show ?thesis
  proof (cases allow)
    case False
    then show ?thesis using n by simp
  next
    case True
    then show ?thesis using n w
      by (cases "ob_type ob = type \<or> PyType_IsSubtype (ob_type ob) type") auto
  qed
qed

theorem NewWithStorage_preexisting_witness:
  "fst (THPStorage_NewWithStorage UntypedStorage 1 DEFINITELY_UNINITIALIZED False
          (demo_heap 2 1 (owned 1) False))
     = Inl (AlreadyWrapped ''torch.UntypedStorage'' ''torch.UntypedStorage'') \<and>
   fst (THPStorage_NewWithStorage OtherStorage 1 DEFINITELY_UNINITIALIZED True
          (demo_heap 2 1 (owned 1) False))
     = Inl (AlreadyWrappedNotSubclass ''OtherStorage'' ''torch.UntypedStorage'') \<and>
   fst (THPStorage_NewWithStorage THPStorageType 1 DEFINITELY_UNINITIALIZED True
          (demo_heap 2 1 (owned 1) False)) = Inr 1"
proof -
  have im: "impls (demo_heap 2 1 (owned 1) False) 1 = Some (demo_impl 2 (demo_slot False))"
    and sl: "check_pyobj (si_pyobj_slot (demo_impl 2 (demo_slot False))) = Some 1"
    and ob: "objs (demo_heap 2 1 (owned 1) False) 1 = Some (demo_obj 1 (owned 1))"
    by (simp_all add: demo_defs check_pyobj_def)
  have h: "\<not> hermetic (demo_heap 2 1 (owned 1) False)" by (simp add: demo_heap_def)
  have ty: "ob_type (demo_obj 1 (owned 1)) = UntypedStorage" by (simp add: demo_obj_def)
  have t1: "PyType_IsSubtype UntypedStorage THPStorageType"
    and t2: "PyType_IsSubtype OtherStorage THPStorageType"
    and t3: "PyType_IsSubtype THPStorageType THPStorageType"
    by (simp_all add: UntypedStorage_def OtherStorage_def THPStorageType_def)
  have a: "fst (THPStorage_NewWithStorage UntypedStorage 1 DEFINITELY_UNINITIALIZED False
          (demo_heap 2 1 (owned 1) False))
     = Inl (AlreadyWrapped ''torch.UntypedStorage'' ''torch.UntypedStorage'')"
    using NewWithStorage_preexisting[OF t1 im sl one_neq_zero ob, of False DEFINITELY_UNINITIALIZED]
    by (simp add: demo_obj_def UntypedStorage_def)
  have b: "fst (THPStorage_NewWithStorage OtherStorage 1 DEFINITELY_UNINITIALIZED True
          (demo_heap 2 1 (owned 1) False))
     = Inl (AlreadyWrappedNotSubclass ''OtherStorage'' ''torch.UntypedStorage'')"
    using NewWithStorage_preexisting[OF t2 im sl one_neq_zero ob, of True DEFINITELY_UNINITIALIZED]
    by (simp add: demo_obj_def UntypedStorage_def OtherStorage_def THPStorageType_def)
  have c: "fst (THPStorage_NewWithStorage THPStorageType 1 DEFINITELY_UNINITIALIZED True
          (demo_heap 2 1 (owned 1) False)) = Inr 1"
    using NewWithStorage_preexisting[OF t3 im sl one_neq_zero ob, of True DEFINITELY_UNINITIALIZED]
      t1 h ty
    by auto
  show ?thesis using a b c by simp
qed

text \<open>
  The claim as stated fails: with \<open>allow_preexisting_pyobj\<close> set and a requested
  type that the existing wrapper's type is not a subtype of, the existing wrapper is
  not reused; the call raises.
\<close>

theorem NewWithStorage_allow_counterexample:
  "PyType_IsSubtype OtherStorage THPStorageType \<and>
   check_pyobj (demo_slot False) = Some 1 \<and>
   impls (demo_heap 2 1 (owned 1) False) 1 = Some (demo_impl 2 (demo_slot False)) \<and>
   objs (demo_heap 2 1 (owned 1) False) 1 = Some (demo_obj 1 (owned 1)) \<and>
   THPStorage_NewWithStorage OtherStorage 1 DEFINITELY_UNINITIALIZED True
       (demo_heap 2 1 (owned 1) False)
     = (Inl (AlreadyWrappedNotSubclass ''OtherStorage'' ''torch.UntypedStorage''),
        demo_heap 1 1 (owned 1) False) \<and>
   fst (THPStorage_NewWithStorage OtherStorage 1 DEFINITELY_UNINITIALIZED True
          (demo_heap 2 1 (owned 1) False)) \<noteq> Inr 1"
  by (simp add: THPStorage_NewWithStorage.simps check_pyobj_def decref_def demo_defs
      OtherStorage_def)

section \<open>ByteAccessProtocol: integer index\<close>

lemma get_index_eq:
  assumes "objs st self = Some ob" "unsafeGetStorageImpl (cdata ob) = s" "s \<noteq> 0"
    "impls st s = Some im" "is_int64 i" "si_nbytes im < 2 ^ 63"
  shows "THPStorage_get bu self (PyLong i) st =
    (let len = int (si_nbytes im); j = (if i < 0 then i + len else i) in
     if 0 \<le> j \<and> j < len
     then (Some (THPByteUtils_newReal bu (memory st (dp_data (si_data_ptr im) + nat j))), None, st)
     else (None, Some (IndexOutOfRange j (si_nbytes im)), st))"
proof -
  have n: "int64_of (int (si_nbytes im)) = int (si_nbytes im)"
    using assms(6) by (rule int64_of_nat)
  have lt: "int (si_nbytes im) < 2 ^ 63" using assms(6) by (rule int_less_2p63)
  have j: "i < 0 \<Longrightarrow> int64_of (i + int (si_nbytes im)) = i + int (si_nbytes im)"
    using assms(5) lt by (intro int64_of_id) (simp add: is_int64_def)
  show ?thesis
    using assms n j
    by (simp add: THPStorage_get_def THPUtils_checkLong_def THPUtils_unpackLong_def
        storage_get_def Let_def)
qed

lemma demo_fields:
  "objs (demo_heap rc hrc c own) (Suc 0) = Some (demo_obj hrc c)"
  "impls (demo_heap rc hrc c own) (Suc 0) = Some (demo_impl rc (demo_slot own))"
  "cdata (demo_obj hrc c) = c" "si_nbytes (demo_impl rc sl) = 5"
  "dp_data (si_data_ptr (demo_impl rc sl)) = 100"
  "memory (demo_heap rc hrc c own) = demo_bytes"
  by (simp_all add: demo_heap_def demo_obj_def demo_impl_def)

text \<open>
  C8 (as amended). For a live wrapper on a resource of fewer than \<open>2 ^ 63\<close> bytes and
  an index that is an \<^verbatim>\<open>int64_t\<close>: a negative index \<open>i\<close> with
  \<open>- length \<le> i\<close> reads the byte at position \<open>length + i\<close>, an index in
  \<open>[0, length)\<close> reads the byte at that position, and every other index fails with
  IndexOutOfRange carrying the length and the index after the adjustment of negative
  indices: \<open>i\<close> itself when \<open>length \<le> i\<close>, and \<open>i + length\<close> when
  \<open>i < - length\<close>. The heap is unchanged in every case.
\<close>

theorem THPStorage_get_index:
  assumes "objs st self = Some ob" and "unsafeGetStorageImpl (cdata ob) = s" and "s \<noteq> 0"
    and "impls st s = Some im" and "is_int64 i" and "si_nbytes im < 2 ^ 63"
  shows
    "(- int (si_nbytes im) \<le> i \<and> i < 0 \<longrightarrow>
        THPStorage_get bu self (PyLong i) st =
          (Some (THPByteUtils_newReal bu
                   (memory st (dp_data (si_data_ptr im) + nat (int (si_nbytes im) + i)))),
           None, st)) \<and>
     (0 \<le> i \<and> i < int (si_nbytes im) \<longrightarrow>
        THPStorage_get bu self (PyLong i) st =
          (Some (THPByteUtils_newReal bu (memory st (dp_data (si_data_ptr im) + nat i))),
           None, st)) \<and>
     (int (si_nbytes im) \<le> i \<longrightarrow>
        THPStorage_get bu self (PyLong i) st
          = (None, Some (IndexOutOfRange i (si_nbytes im)), st)) \<and>
     (i < - int (si_nbytes im) \<longrightarrow>
        THPStorage_get bu self (PyLong i) st
          = (None, Some (IndexOutOfRange (i + int (si_nbytes im)) (si_nbytes im)), st))"
  using get_index_eq[OF assms, of bu] by (auto simp: Let_def add.commute)

theorem THPStorage_get_index_witness:
  "THPStorage_get spec_byte_utils 1 (PyLong (- 1)) (demo_heap 1 1 (owned 1) False)
     = (Some (PyLong 5), None, demo_heap 1 1 (owned 1) False) \<and>
   THPStorage_get spec_byte_utils 1 (PyLong 0) (demo_heap 1 1 (owned 1) False)
     = (Some (PyLong 1), None, demo_heap 1 1 (owned 1) False) \<and>
   THPStorage_get spec_byte_utils 1 (PyLong 5) (demo_heap 1 1 (owned 1) False)
     = (None, Some (IndexOutOfRange 5 5), demo_heap 1 1 (owned 1) False) \<and>
   THPStorage_get spec_byte_utils 1 (PyLong (- 7)) (demo_heap 1 1 (owned 1) False)
     = (None, Some (IndexOutOfRange (- 2) 5), demo_heap 1 1 (owned 1) False)"
proof -
  note T = THPStorage_get_index[of "demo_heap 1 1 (owned 1) False" 1 "demo_obj 1 (owned 1)" 1
      "demo_impl 1 (demo_slot False)" _ spec_byte_utils]
  have a: "THPStorage_get spec_byte_utils 1 (PyLong (- 1)) (demo_heap 1 1 (owned 1) False)
     = (Some (PyLong 5), None, demo_heap 1 1 (owned 1) False)"
    using T[of "- 1"] by (simp add: demo_fields is_int64_def spec_byte_utils_def demo_bytes_def)
  have b: "THPStorage_get spec_byte_utils 1 (PyLong 0) (demo_heap 1 1 (owned 1) False)
     = (Some (PyLong 1), None, demo_heap 1 1 (owned 1) False)"
    using T[of 0] by (simp add: demo_fields is_int64_def spec_byte_utils_def demo_bytes_def)
  have c: "THPStorage_get spec_byte_utils 1 (PyLong 5) (demo_heap 1 1 (owned 1) False)
     = (None, Some (IndexOutOfRange 5 5), demo_heap 1 1 (owned 1) False)"
    using T[of 5] by (simp add: demo_fields is_int64_def)
  have d: "THPStorage_get spec_byte_utils 1 (PyLong (- 7)) (demo_heap 1 1 (owned 1) False)
     = (None, Some (IndexOutOfRange (- 2) 5), demo_heap 1 1 (owned 1) False)"
    using T[of "- 7"] by (simp add: demo_fields is_int64_def)
  show ?thesis using a b c d by simp
qed

text \<open>
  The claim as stated fails for an index below \<open>- length\<close>: the error carries the
  adjusted index, not the index passed.
\<close>

theorem THPStorage_get_index_counterexample:
  "fst (snd (THPStorage_get spec_byte_utils 1 (PyLong (- 7)) (demo_heap 1 1 (owned 1) False)))
     = Some (IndexOutOfRange (- 2) 5) \<and>
   fst (snd (THPStorage_get spec_byte_utils 1 (PyLong (- 7)) (demo_heap 1 1 (owned 1) False)))
     \<noteq> Some (IndexOutOfRange (- 7) 5)"
  by (simp add: THPStorage_get_def THPUtils_checkLong_def THPUtils_unpackLong_def
      is_int64_def int64_of_def demo_fields Let_def)

section \<open>ByteAccessProtocol: assignment\<close>

text \<open>
  C9. \<^verbatim>\<open>THPStorage_set\<close> does not adjust a negative index: on the five bytes of
  the example, index -1 ends in the out-of-range failure of \<^verbatim>\<open>storage_set\<close> and
  nothing is written, while \<^verbatim>\<open>THPStorage_get\<close> reads the last byte at index -1.
\<close>

theorem THPStorage_set_negative_index:
  "THPStorage_set spec_byte_utils 1 (PyLong (- 1)) (PyLong 9) (demo_heap 1 1 (owned 1) False)
     = (- 1, Some (IndexOutOfRange (- 1) 5), demo_heap 1 1 (owned 1) False) \<and>
   THPStorage_get spec_byte_utils 1 (PyLong (- 1)) (demo_heap 1 1 (owned 1) False)
     = (Some (PyLong 5), None, demo_heap 1 1 (owned 1) False)"
  by (simp add: THPStorage_set_def THPStorage_get_def THPUtils_checkLong_def
      THPUtils_unpackLong_def storage_set_def storage_get_def spec_byte_utils_def
      is_int64_def int64_of_def demo_fields demo_bytes_def Let_def)

text \<open>
  C10. For a slice with step 2, \<^verbatim>\<open>THPStorage_set\<close> sets the UnsupportedStep error
  and assigns no byte, but returns 0, the value of a successful assignment.
\<close>

theorem THPStorage_set_step_returns_success:
  "THPStorage_set spec_byte_utils 1 (PySlice (Some 0) (Some 4) (Some 2)) (PyLong 9)
       (demo_heap 1 1 (owned 1) False)
     = (0, Some (UnsupportedStep 2), demo_heap 1 1 (owned 1) False)"
  by (simp add: THPStorage_set_def THPUtils_checkLong_def spec_byte_utils_def
      int64_of_def demo_fields Let_def PySlice_GetIndicesEx_def PySlice_Unpack_def
      PySlice_AdjustIndices_def adjust_index_def PyEval_SliceIndex_def PY_SSIZE_T_MAX_def
      PY_SSIZE_T_MIN_def)

section \<open>SliceView\<close>






section \<open>ConstructionProtocol: a sequence with an element that is not a byte\<close>


lemma THPUtils_typename_objs:
  "objs st1 = objs st2 \<Longrightarrow> THPUtils_typename st1 v = THPUtils_typename st2 v"
  by (simp add: THPUtils_typename_def split: PyObject.splits)




section \<open>TeardownSequence: resurrection\<close>


lemma upd_obj_None: "objs st self = None \<Longrightarrow> upd_obj self f st = st"
  by (simp add: upd_obj_def)

lemma Py_REFCNT_Some: "objs st self = Some ob \<Longrightarrow> Py_REFCNT st self = ob_refcnt ob"
  by (simp add: Py_REFCNT_def)

















end
